theory Spec2Isabelle
  imports Complex_Main
begin

section \<open>JSON values\<close>

text \<open>
  A parsed JSON payload as Python holds it: \<open>None\<close>, a \<open>bool\<close>, a number, a \<open>str\<close>,
  a \<open>list\<close> or a \<open>dict\<close>. A \<open>dict\<close> keeps its insertion order, so it is an
  association list; its keys are unique (\<open>distinct (map fst kvs)\<close>), which the
  theorems assume where it matters. Python has one \<open>None\<close>: the JSON \<open>null\<close> and the
  "nothing found" result of a function are the same value \<open>JNull\<close>.
\<close>

datatype json =
    JNull
  | JBool bool
  | JNum rat
  | JStr string
  | JList "json list"
  | JObj "(string \<times> json) list"

text \<open>\<open>isinstance(v, list)\<close> and \<open>isinstance(v, dict)\<close>.\<close>

fun is_list :: "json \<Rightarrow> bool" where
  "is_list (JList xs) = True"
| "is_list _ = False"

fun is_dict :: "json \<Rightarrow> bool" where
  "is_dict (JObj kvs) = True"
| "is_dict _ = False"

section \<open>Record locator: \<open>find_first_list\<close>\<close>

definition preferred_keys :: "string list" where
  "preferred_keys =
     [''requests'', ''request'', ''data'', ''result'', ''results'', ''records'', ''response'']"

text \<open>
  The loop \<open>for k in preferred_keys: if k in obj and isinstance(obj[k], list): return obj[k]\<close>.
  \<open>Some v\<close>: the function returns \<open>v\<close> from inside the loop; \<open>None\<close>: the loop ends
  without returning.
\<close>

fun preferred_loop :: "(string \<times> json) list \<Rightarrow> string list \<Rightarrow> json option" where
  "preferred_loop obj [] = None"
| "preferred_loop obj (k # ks) =
     (case map_of obj k of
        None \<Rightarrow> preferred_loop obj ks
      | Some v \<Rightarrow> if is_list v then Some v else preferred_loop obj ks)"

text \<open>
  \<open>find_first_list\<close>, and its second loop
  \<open>for v in obj.values(): found = find_first_list(v); if found is not None: return found\<close>
  as \<open>values_loop\<close> (\<open>Some\<close>: returned from inside the loop).
\<close>

fun find_first_list :: "json \<Rightarrow> json"
  and values_loop :: "(string \<times> json) list \<Rightarrow> json option" where
  "find_first_list JNull = JNull"
| "find_first_list (JList xs) = JList xs"
| "find_first_list (JObj kvs) =
     (case preferred_loop kvs preferred_keys of
        Some r \<Rightarrow> r
      | None \<Rightarrow> (case values_loop kvs of Some r \<Rightarrow> r | None \<Rightarrow> JNull))"
| "find_first_list (JBool b) = JNull"
| "find_first_list (JNum n) = JNull"
| "find_first_list (JStr s) = JNull"
| "values_loop [] = None"
| "values_loop ((k, v) # kvs) =
     (let found = find_first_list v
      in if found \<noteq> JNull then Some found else values_loop kvs)"

text \<open>The values that occur within a value: the value itself and, recursively, the
  elements of a list and the values of a dict.\<close>

fun subvalues :: "json \<Rightarrow> json set" where
  "subvalues (JList xs) = insert (JList xs) (\<Union>x\<in>set xs. subvalues x)"
| "subvalues (JObj kvs) = insert (JObj kvs) (\<Union>p\<in>set kvs. subvalues (snd p))"
| "subvalues v = {v}"

text \<open>\<open>k in obj and isinstance(obj[k], list)\<close>.\<close>

definition holds_list :: "(string \<times> json) list \<Rightarrow> string \<Rightarrow> bool" where
  "holds_list obj k = (case map_of obj k of None \<Rightarrow> False | Some v \<Rightarrow> is_list v)"

text \<open>A value with no list anywhere in it.\<close>

fun no_list :: "json \<Rightarrow> bool" where
  "no_list (JList xs) = False"
| "no_list (JObj kvs) = (\<forall>p\<in>set kvs. no_list (snd p))"
| "no_list v = True"

text \<open>The key paths from the root of a value to its non-mapping values.\<close>

fun leaf_paths :: "json \<Rightarrow> string list set" where
  "leaf_paths (JObj kvs) = (\<Union>p\<in>set kvs. (\<lambda>q. fst p # q) ` leaf_paths (snd p))"
| "leaf_paths v = {[]}"

text \<open>Python's truth value of a parsed payload (\<open>if parsed:\<close>).\<close>

fun truthy :: "json \<Rightarrow> bool" where
  "truthy JNull = False"
| "truthy (JBool b) = b"
| "truthy (JNum n) = (n \<noteq> 0)"
| "truthy (JStr s) = (s \<noteq> [])"
| "truthy (JList xs) = (xs \<noteq> [])"
| "truthy (JObj kvs) = (kvs \<noteq> [])"

section \<open>Tables\<close>

text \<open>
  A \<open>pandas.DataFrame\<close> as the program uses it: the column labels in order and the
  rows, each a list of cells aligned with the labels. A cell is \<open>None\<close> where the frame
  has no value. \<open>wf_table\<close> is the shape of a frame built from JSON objects: the labels
  are unique and every row has one cell per label.
\<close>

type_synonym cell = "json option"

record dataframe =
  columns :: "string list"
  rows :: "cell list list"

definition wf_table :: "dataframe \<Rightarrow> bool" where
  "wf_table df =
     (distinct (columns df) \<and> list_all (\<lambda>r. length r = length (columns df)) (rows df))"

text \<open>
  A Table of section 3 of the specification, as a shape of frames: its column names are
  unique, and they are the keys seen across its rows, so a table without rows has no
  columns.
\<close>

definition spec_table :: "dataframe \<Rightarrow> bool" where
  "spec_table df = (distinct (columns df) \<and> (rows df = [] \<longrightarrow> columns df = []))"

text \<open>\<open>pd.DataFrame()\<close> and \<open>df.empty\<close> (true when either axis has length 0).\<close>

definition empty_frame :: dataframe where
  "empty_frame = \<lparr>columns = [], rows = []\<rparr>"

definition df_empty :: "dataframe \<Rightarrow> bool" where
  "df_empty df = (columns df = [] \<or> rows df = [])"

text \<open>\<open>df[c]\<close>: the cells of the column labelled \<open>c\<close>, row by row.\<close>

definition column_values :: "dataframe \<Rightarrow> string \<Rightarrow> cell option list" where
  "column_values df c = map (\<lambda>r. map_of (zip (columns df) r) c) (rows df)"

text \<open>
  \<open>df[cs]\<close> for a list of labels that all occur in \<open>df\<close>: for each label of \<open>cs\<close> in
  turn, the columns of \<open>df\<close> that carry it.
\<close>

definition select_row :: "string list \<Rightarrow> cell list \<Rightarrow> string list \<Rightarrow> cell list" where
  "select_row cols r cs = concat (map (\<lambda>c. map snd (filter (\<lambda>p. fst p = c) (zip cols r))) cs)"

definition select_columns :: "dataframe \<Rightarrow> string list \<Rightarrow> dataframe" where
  "select_columns df cs =
     \<lparr>columns = concat (map (\<lambda>c. filter (\<lambda>l. l = c) (columns df)) cs),
      rows = map (\<lambda>r. select_row (columns df) r cs) (rows df)\<rparr>"

definition PREFERRED_CREATE_COLUMNS :: "string list" where
  "PREFERRED_CREATE_COLUMNS =
     [''id'', ''subject'', ''description'', ''requester.id'', ''requester.name'',
      ''status.name'', ''site.name'', ''account.name'', ''created_time.display_value'']"

definition PREFERRED_VIEW_COLUMNS :: "string list" where
  "PREFERRED_VIEW_COLUMNS =
     [''id'', ''subject'', ''requester.id'', ''requester.name'', ''status.name'',
      ''priority.name'', ''technician.name'', ''assigned_to.name'', ''group.name'',
      ''site.name'', ''account.name'', ''created_time'', ''created_time.display_value'',
      ''due_by_time.display_value'']"

text \<open>
  \<open>pick_preferred_columns\<close>. The argument may be Python's \<open>None\<close> (\<open>df is None\<close>), so it
  is a \<open>dataframe option\<close>; \<open>.copy()\<close> returns an equal frame.
\<close>

definition pick_preferred_columns :: "dataframe option \<Rightarrow> string list \<Rightarrow> dataframe option" where
  "pick_preferred_columns df preferred =
     (case df of
        None \<Rightarrow> None
      | Some d \<Rightarrow>
          if df_empty d then Some d
          else (let present = filter (\<lambda>c. c \<in> set (columns d)) preferred
                in if present \<noteq> [] then Some (select_columns d present) else Some d))"

section \<open>Exceptions and the libraries the program calls\<close>

text \<open>
  A Python exception, as far as the program's handlers can tell one from another:
  whether it is an instance of \<open>requests.exceptions.RequestException\<close>, whether it is an
  instance of \<open>ValueError\<close>, and its \<open>str(e)\<close>. One class can be both: in requests 2.27
  and later the error of \<open>r.json()\<close>, \<open>requests.exceptions.JSONDecodeError\<close>, derives from
  \<open>InvalidJSONError\<close> (a \<open>RequestException\<close>) and from \<open>json.JSONDecodeError\<close> (a
  \<open>ValueError\<close>); before 2.27 it was a \<open>ValueError\<close> only.
\<close>

record pyexn =
  request_exception :: bool
  value_error :: bool
  message :: string

text \<open>
  The calls into pandas and \<open>json\<close> are parameters of the model:
  \<open>json.loads(text)\<close> (\<open>None\<close>: it raises), \<open>pd.json_normalize(x, sep='.')\<close> (\<open>None\<close>: it
  raises an \<open>Exception\<close>), \<open>pd.DataFrame(x)\<close> (\<open>Inl\<close>: it raises, and nothing catches it)
  and \<open>df.to_csv(index=False)\<close>.
\<close>

record library =
  json_loads :: "string \<Rightarrow> json option"
  pd_json_normalize :: "json \<Rightarrow> dataframe option"
  pd_DataFrame :: "json \<Rightarrow> pyexn + dataframe"
  df_to_csv :: "dataframe \<Rightarrow> string"

section \<open>Normalising JSON to a table\<close>

text \<open>\<open>json_to_dataframe\<close>, with its two \<open>try ... except Exception\<close> fallbacks.\<close>

definition json_to_dataframe :: "library \<Rightarrow> json \<Rightarrow> pyexn + dataframe" where
  "json_to_dataframe L obj =
     (if obj = JNull then Inr empty_frame
      else if is_list obj then
        (case pd_json_normalize L obj of Some df \<Rightarrow> Inr df | None \<Rightarrow> pd_DataFrame L obj)
      else if is_dict obj then
        (let lst = find_first_list obj
         in if lst \<noteq> JNull then
              (case pd_json_normalize L lst of Some df \<Rightarrow> Inr df | None \<Rightarrow> pd_DataFrame L lst)
            else
              (case pd_json_normalize L obj of
                 Some df \<Rightarrow> Inr df
               | None \<Rightarrow> pd_DataFrame L (JList [obj])))
      else pd_DataFrame L (JList [obj]))"

text \<open>
  \<open>pd.json_normalize\<close> is pandas code, not part of the repository. Section 4.2 of the
  specification gives its contract, and the next five definitions follow it.
\<close>

text \<open>
  Modelled from the spec: the column name of a path \<open>p1, ..., pn\<close>, which pandas
  computes: the segments joined with the separator \<open>.\<close>.
\<close>

fun dot_join :: "string list \<Rightarrow> string" where
  "dot_join [] = []"
| "dot_join [p] = p"
| "dot_join (p # q # ps) = p @ ''.'' @ dot_join (q # ps)"

text \<open>
  Modelled from the spec: the flattening done inside \<open>pd.json_normalize\<close>: walk a
  mapping recursively; each non-mapping value met at path \<open>p1, ..., pn\<close> becomes the
  column \<open>p1.p2...pn\<close> with that value. A list is such a leaf and is not entered.
\<close>

fun flatten :: "string list \<Rightarrow> (string \<times> json) list \<Rightarrow> (string \<times> json) list" where
  "flatten path [] = []"
| "flatten path ((k, v) # kvs) =
     (case v of
        JObj sub \<Rightarrow> flatten (path @ [k]) sub
      | _ \<Rightarrow> [(dot_join (path @ [k]), v)]) @ flatten path kvs"

text \<open>
  Modelled from the spec: the column list of a Table (section 3), which pandas builds
  and the repository does not: the keys seen across the rows, each once, in first-seen
  order.
\<close>

fun first_seen :: "string list \<Rightarrow> string list \<Rightarrow> string list" where
  "first_seen seen [] = seen"
| "first_seen seen (k # ks) = first_seen (if k \<in> set seen then seen else seen @ [k]) ks"

text \<open>
  Modelled from the spec: the Table of a sequence of flattened rows (section 4.2 a),
  built by pandas: the columns are the first-seen union of the rows' keys and a row has
  no cell where it has no such key. Where a row emits one column twice, the later value
  stays, as in a Python dict.
\<close>

definition table_of_rows :: "(string \<times> json) list list \<Rightarrow> dataframe" where
  "table_of_rows rs =
     (let cols = first_seen [] (concat (map (map fst) rs))
      in \<lparr>columns = cols, rows = map (\<lambda>r. map (map_of (rev r)) cols) rs\<rparr>)"

text \<open>
  Modelled from the spec: \<open>pd.json_normalize(x, sep='.')\<close> on a mapping and on a
  sequence of mappings (section 4.2 a). What it does on any other shape, which the
  specification leaves open, is the parameter \<open>other\<close>.
\<close>

definition json_normalize :: "(json \<Rightarrow> dataframe option) \<Rightarrow> json \<Rightarrow> dataframe option" where
  "json_normalize other x =
     (case x of
        JObj kvs \<Rightarrow> Some (table_of_rows [flatten [] kvs])
      | JList xs \<Rightarrow>
          if list_all is_dict xs
          then Some (table_of_rows (map (\<lambda>e. case e of JObj kvs \<Rightarrow> flatten [] kvs | _ \<Rightarrow> []) xs))
          else other x
      | _ \<Rightarrow> other x)"

section \<open>The HTTP wrappers\<close>

text \<open>
  What the wrappers read of a \<open>requests.Response\<close>: \<open>r.status_code\<close>, \<open>r.text\<close>, the
  \<open>Content-Type\<close> header if there is one, and what \<open>r.json()\<close> does (\<open>Inl\<close>: it raises).
\<close>

record response =
  status_code :: int
  resp_text :: string
  content_type :: "string option"
  json_body :: "pyexn + json"

text \<open>\<open>needle in hay\<close> on strings.\<close>

fun starts_with :: "string \<Rightarrow> string \<Rightarrow> bool" where
  "starts_with [] hay = True"
| "starts_with (x # xs) [] = False"
| "starts_with (x # xs) (y # ys) = (x = y \<and> starts_with xs ys)"

fun contains :: "string \<Rightarrow> string \<Rightarrow> bool" where
  "contains needle [] = (needle = [])"
| "contains needle (y # ys) = (starts_with needle (y # ys) \<or> contains needle ys)"

text \<open>
  In the \<open>except ValueError\<close> clause with \<open>r\<close> unbound, \<open>str(e)\<close> is evaluated; \<open>e\<close> is a
  local name bound only in the other clause, so reading it raises \<open>UnboundLocalError\<close>.
\<close>

definition unbound_local_e :: pyexn where
  "unbound_local_e =
     \<lparr>request_exception = False, value_error = False, message = ''UnboundLocalError: e''\<rparr>"

text \<open>
  The two \<open>except\<close> clauses, the same text in both wrappers, tried in order. The first
  argument is \<open>r\<close> if it is bound (\<open>'r' in locals()\<close>). \<open>Inr\<close>: the tuple returned (status,
  text, parsed JSON, with \<open>JNull\<close> for \<open>None\<close>); \<open>Inl\<close>: an exception leaves the wrapper.
\<close>

definition except_clauses :: "response option \<Rightarrow> pyexn \<Rightarrow> pyexn + (int option \<times> string \<times> json)" where
  "except_clauses r e =
     (if request_exception e then Inr (None, message e, JNull)
      else if value_error e then
        (case r of
           Some r' \<Rightarrow> Inr (Some (status_code r'), resp_text r', JNull)
         | None \<Rightarrow> Inl unbound_local_e)
      else Inl e)"

text \<open>The \<open>try\<close> body once \<open>r\<close> is bound.\<close>

definition return_response :: "response \<Rightarrow> pyexn + (int option \<times> string \<times> json)" where
  "return_response r =
     (if contains ''application/json'' (case content_type r of None \<Rightarrow> [] | Some c \<Rightarrow> c)
      then (case json_body r of
              Inl e \<Rightarrow> except_clauses (Some r) e
            | Inr v \<Rightarrow> Inr (Some (status_code r), resp_text r, v))
      else Inr (Some (status_code r), resp_text r, JNull))"

type_synonym fields = "(string \<times> string) list"

text \<open>\<open>safe_request_post\<close> and \<open>safe_request_get\<close>; \<open>requests.post\<close> and \<open>requests.get\<close> are
  parameters (\<open>Inl\<close>: the call raises), called with \<open>timeout=30\<close>.\<close>

definition safe_request_post ::
  "(string \<Rightarrow> fields \<Rightarrow> fields \<Rightarrow> fields \<Rightarrow> bool \<Rightarrow> nat \<Rightarrow> pyexn + response) \<Rightarrow>
   string \<Rightarrow> fields \<Rightarrow> fields \<Rightarrow> fields \<Rightarrow> bool \<Rightarrow> pyexn + (int option \<times> string \<times> json)" where
  "safe_request_post requests_post url params data headers verify_ssl =
     (case requests_post url params data headers verify_ssl 30 of
        Inl e \<Rightarrow> except_clauses None e
      | Inr r \<Rightarrow> return_response r)"

definition safe_request_get ::
  "(string \<Rightarrow> fields \<Rightarrow> fields \<Rightarrow> bool \<Rightarrow> nat \<Rightarrow> pyexn + response) \<Rightarrow>
   string \<Rightarrow> fields \<Rightarrow> fields \<Rightarrow> bool \<Rightarrow> pyexn + (int option \<times> string \<times> json)" where
  "safe_request_get requests_get url params headers verify_ssl =
     (case requests_get url params headers verify_ssl 30 of
        Inl e \<Rightarrow> except_clauses None e
      | Inr r \<Rightarrow> return_response r)"

section \<open>Display\<close>

text \<open>What the program puts on the page, in order: the Streamlit calls it makes.\<close>

datatype ui =
    St_error string
  | St_json json
  | St_text string
  | St_info string
  | St_subheader string
  | St_dataframe dataframe
  | St_download_button string string string string

text \<open>\<open>title.replace(' ', '_').lower()\<close>, on the ASCII titles the program passes.\<close>

definition lower_char :: "char \<Rightarrow> char" where
  "lower_char c =
     (case map_of (zip ''ABCDEFGHIJKLMNOPQRSTUVWXYZ'' ''abcdefghijklmnopqrstuvwxyz'') c of
        None \<Rightarrow> c
      | Some l \<Rightarrow> l)"

definition file_stem :: "string \<Rightarrow> string" where
  "file_stem title = map (\<lambda>c. lower_char (if c = CHR '' '' then CHR ''_'' else c)) title"

definition interactive_table :: "library \<Rightarrow> dataframe option \<Rightarrow> string list \<Rightarrow> string \<Rightarrow> ui list" where
  "interactive_table L df default_columns title =
     (case df of
        None \<Rightarrow> [St_info ''No tableable data to display.'']
      | Some d \<Rightarrow>
          if df_empty d then [St_info ''No tableable data to display.'']
          else (let preferred_present = filter (\<lambda>c. c \<in> set (columns d)) default_columns;
                    df_to_show = (if preferred_present \<noteq> [] then select_columns d preferred_present
                                  else d)
                in [St_subheader title,
                    St_dataframe df_to_show,
                    St_download_button ''Download CSV'' (df_to_csv L df_to_show)
                      (file_stem title @ ''.csv'') ''text/csv'']))"

text \<open>
  \<open>view_request_flow\<close> once the form is submitted and its dates are parsed: the request
  (\<open>params\<close> and \<open>headers\<close> as the flow built them) and what is displayed of the answer.
\<close>

definition view_request_flow ::
  "library \<Rightarrow> (string \<Rightarrow> fields \<Rightarrow> fields \<Rightarrow> bool \<Rightarrow> nat \<Rightarrow> pyexn + response) \<Rightarrow>
   string \<Rightarrow> fields \<Rightarrow> fields \<Rightarrow> bool \<Rightarrow> pyexn + ui list" where
  "view_request_flow L requests_get api_url params headers verify_ssl =
     (case safe_request_get requests_get api_url params headers verify_ssl of
        Inl e \<Rightarrow> Inl e
      | Inr (status, body, j) \<Rightarrow>
          if status = None then Inr [St_error (''Request error: '' @ body)]
          else (let parsed = (if j \<noteq> JNull then j
                              else (case json_loads L body of Some v \<Rightarrow> v | None \<Rightarrow> JNull))
                in if truthy parsed then
                     (case json_to_dataframe L parsed of
                        Inl e \<Rightarrow> Inl e
                      | Inr df \<Rightarrow>
                          if df_empty df then Inr [St_json parsed]
                          else Inr (interactive_table L
                                      (pick_preferred_columns (Some df) PREFERRED_VIEW_COLUMNS)
                                      PREFERRED_VIEW_COLUMNS ''Requests Export''))
                   else Inr [St_text body]))"

section \<open>Example data\<close>

text \<open>A library whose \<open>pd.json_normalize\<close> is the modelled one; the other calls are stubs.\<close>

definition library0 :: library where
  "library0 =
     \<lparr>json_loads = (\<lambda>s. None),
      pd_json_normalize = json_normalize (\<lambda>x. None),
      pd_DataFrame = (\<lambda>x. Inr empty_frame),
      df_to_csv = (\<lambda>df. [])\<rparr>"

definition frame1 :: dataframe where
  "frame1 =
     \<lparr>columns = [''id'', ''subject'', ''extra''],
      rows = [[Some (JStr ''1''), Some (JStr ''X''), None],
              [Some (JStr ''2''), Some JNull, Some (JNum 7)]]\<rparr>"

text \<open>The error of \<open>r.json()\<close> in requests 2.27 and later, and a \<open>ValueError\<close> that is not
  a \<open>RequestException\<close>.\<close>

definition json_decode_error :: pyexn where
  "json_decode_error =
     \<lparr>request_exception = True, value_error = True,
      message = ''Expecting value: line 1 column 1 (char 0)''\<rparr>"

definition plain_value_error :: pyexn where
  "plain_value_error =
     \<lparr>request_exception = False, value_error = True, message = ''label empty or too long''\<rparr>"

definition html_error_response :: response where
  "html_error_response =
     \<lparr>status_code = 500, resp_text = ''<html>Server Error</html>'',
      content_type = Some ''application/json'', json_body = Inl json_decode_error\<rparr>"

definition empty_requests_response :: response where
  "empty_requests_response =
     \<lparr>status_code = 200, resp_text = ''(body)'',
      content_type = Some ''application/json'',
      json_body = Inr (JObj [(''requests'', JList [])])\<rparr>"

definition one_request_response :: response where
  "one_request_response =
     \<lparr>status_code = 200, resp_text = ''(body)'',
      content_type = Some ''application/json'',
      json_body =
        Inr (JObj [(''requests'', JList [JObj [(''id'', JStr ''1''), (''note'', JStr ''n'')]])])\<rparr>"

text \<open>\<open>requests.post\<close> and \<open>requests.get\<close> that answer with a fixed response, or raise a
  fixed exception, whatever the request.\<close>

definition post_returns ::
  "response \<Rightarrow> string \<Rightarrow> fields \<Rightarrow> fields \<Rightarrow> fields \<Rightarrow> bool \<Rightarrow> nat \<Rightarrow> pyexn + response" where
  "post_returns r url params data headers verify timeout = Inr r"

definition get_returns ::
  "response \<Rightarrow> string \<Rightarrow> fields \<Rightarrow> fields \<Rightarrow> bool \<Rightarrow> nat \<Rightarrow> pyexn + response" where
  "get_returns r url params headers verify timeout = Inr r"

definition post_raises ::
  "pyexn \<Rightarrow> string \<Rightarrow> fields \<Rightarrow> fields \<Rightarrow> fields \<Rightarrow> bool \<Rightarrow> nat \<Rightarrow> pyexn + response" where
  "post_raises e url params data headers verify timeout = Inl e"

definition get_raises ::
  "pyexn \<Rightarrow> string \<Rightarrow> fields \<Rightarrow> fields \<Rightarrow> bool \<Rightarrow> nat \<Rightarrow> pyexn + response" where
  "get_raises e url params headers verify timeout = Inl e"

section \<open>Properties of the record locator\<close>

lemma subvalues_self: "v \<in> subvalues v"
  by (cases v) auto

lemma preferred_loop_Some:
  "preferred_loop obj ks = Some v \<Longrightarrow> is_list v \<and> (\<exists>k\<in>set ks. map_of obj k = Some v)"
  by (induction ks) (auto split: option.splits if_splits)

text \<open>The first loop returns the value under the earliest key of \<open>ks\<close> that holds a list.\<close>

lemma preferred_loop_index:
  "i < length ks \<Longrightarrow> map_of obj (ks ! i) = Some v \<Longrightarrow> is_list v \<Longrightarrow>
   \<forall>j<i. \<not> holds_list obj (ks ! j) \<Longrightarrow> preferred_loop obj ks = Some v"
proof (induction ks arbitrary: i)
  case Nil
  then show ?case by simp
next
  case (Cons k ks)
  show ?case
  proof (cases i)
    case 0
    with Cons.prems show ?thesis by simp
  next
    case (Suc n)
    from Cons.prems Suc have "\<not> holds_list obj k" by force
    moreover have "preferred_loop obj ks = Some v"
    proof (rule Cons.IH)
      show "n < length ks" using Cons.prems Suc by simp
      show "map_of obj (ks ! n) = Some v" using Cons.prems Suc by simp
      show "is_list v" by fact
      show "\<forall>j<n. \<not> holds_list obj (ks ! j)" using Cons.prems(4) Suc by force
    qed
    ultimately show ?thesis by (simp add: holds_list_def split: option.splits)
  qed
qed

text \<open>The first loop reads the dict through lookups only, so not its insertion order.\<close>

lemma preferred_loop_lookup_only:
  "map_of obj' = map_of obj \<Longrightarrow> preferred_loop obj' ks = preferred_loop obj ks"
  by (induction ks) (auto split: option.splits)

lemma preferred_loop_no_list:
  "\<forall>p\<in>set kvs. \<not> is_list (snd p) \<Longrightarrow> preferred_loop kvs ks = None"
  by (induction ks) (auto split: option.splits dest!: map_of_SomeD)

lemma no_list_not_is_list: "no_list v \<Longrightarrow> \<not> is_list v"
  by (cases v) auto

lemma locator_result:
  "find_first_list v = JNull \<or> (is_list (find_first_list v) \<and> find_first_list v \<in> subvalues v)"
  "values_loop kvs = None \<or>
   (\<exists>r. values_loop kvs = Some r \<and> is_list r \<and> r \<in> (\<Union>p\<in>set kvs. subvalues (snd p)))"
proof (induction v and kvs rule: find_first_list_values_loop.induct)
  case (3 kvs)
  show ?case
  proof (cases "preferred_loop kvs preferred_keys")
    case None
    with 3 show ?thesis by (fastforce split: option.splits)
  next
    case (Some r)
    from preferred_loop_Some[OF Some] obtain k where "is_list r" "map_of kvs k = Some r" by blast
    then have "(k, r) \<in> set kvs" by (auto dest: map_of_SomeD)
    then have "r \<in> (\<Union>p\<in>set kvs. subvalues (snd p))" using subvalues_self by force
    with Some \<open>is_list r\<close> show ?thesis by simp
  qed
next
  case (8 k v kvs)
  then show ?case by (auto simp: Let_def)
qed simp_all

lemma locator_no_list:
  "no_list v \<Longrightarrow> find_first_list v = JNull"
  "\<forall>p\<in>set kvs. no_list (snd p) \<Longrightarrow> values_loop kvs = None"
proof (induction v and kvs rule: find_first_list_values_loop.induct)
  case (3 kvs)
  then have "\<forall>p\<in>set kvs. \<not> is_list (snd p)" by (auto dest: no_list_not_is_list)
  then have "preferred_loop kvs preferred_keys = None" by (rule preferred_loop_no_list)
  with 3 show ?case by simp
next
  case (8 k v kvs)
  then show ?case by (simp add: Let_def)
qed simp_all

lemma values_loop_append:
  "values_loop (pre @ kvs) =
     (case values_loop pre of Some r \<Rightarrow> Some r | None \<Rightarrow> values_loop kvs)"
  by (induction pre) (auto simp: Let_def)

text \<open>
  C4. For every JSON value that is itself a list, \<open>find_first_list\<close> returns that list
  unchanged.
\<close>

theorem find_first_list_on_list: "find_first_list (JList xs) = JList xs"
  by simp

text \<open>
  C9. For every input, \<open>find_first_list\<close> returns \<open>None\<close> or a list, never a scalar, a
  string or a mapping; a list it returns is a value that occurs within the input.
\<close>

theorem find_first_list_result_shape:
  "find_first_list v = JNull \<or> (\<exists>xs. find_first_list v = JList xs \<and> JList xs \<in> subvalues v)"
proof (cases "find_first_list v = JNull")
  case True
  then show ?thesis by simp
next
  case False
  with locator_result(1)[of v]
  have l: "is_list (find_first_list v)" and s: "find_first_list v \<in> subvalues v" by auto
  from l obtain xs where "find_first_list v = JList xs" by (cases "find_first_list v") auto
  with s show ?thesis by auto
qed

theorem find_first_list_result_shape_witness:
  "find_first_list (JObj [(''status'', JStr ''ok''), (''page'', JObj [(''rows'', JList [JNum 1])])])
     = JList [JNum 1]
   \<and> JList [JNum 1]
       \<in> subvalues (JObj [(''status'', JStr ''ok''), (''page'', JObj [(''rows'', JList [JNum 1])])])"
  using find_first_list_result_shape
    [of "JObj [(''status'', JStr ''ok''), (''page'', JObj [(''rows'', JList [JNum 1])])]"]
  by (simp add: preferred_keys_def)

text \<open>
  C2. When priority keys of a mapping hold lists (two or more of them, or one),
  \<open>find_first_list\<close> returns the list under the one that comes first in
  \<open>preferred_keys\<close>: index \<open>i\<close> holds the list \<open>xs\<close> and no earlier priority key holds a
  list. The result is the same for every insertion order \<open>kvs'\<close> of the same mapping
  \<open>kvs\<close>.
\<close>

theorem find_first_list_priority:
  assumes "distinct (map fst kvs)" and "distinct (map fst kvs')" and "set kvs' = set kvs"
    and "i < length preferred_keys"
    and "map_of kvs (preferred_keys ! i) = Some (JList xs)"
    and "\<forall>j<i. \<not> holds_list kvs (preferred_keys ! j)"
  shows "find_first_list (JObj kvs') = JList xs \<and> find_first_list (JObj kvs) = JList xs"
proof -
  have m: "map_of kvs' = map_of kvs"
    using map_of_inject_set[OF assms(2) assms(1)] assms(3) by blast
  have "preferred_loop kvs preferred_keys = Some (JList xs)"
    using preferred_loop_index[OF assms(4) assms(5) _ assms(6)] by simp
  moreover from this have "preferred_loop kvs' preferred_keys = Some (JList xs)"
    using preferred_loop_lookup_only[OF m, of preferred_keys] by simp
  ultimately show ?thesis by simp
qed

theorem find_first_list_priority_witness:
  "find_first_list
     (JObj [(''data'', JList [JNum 1]), (''extra'', JNull), (''requests'', JList [JNum 2])])
     = JList [JNum 2]
   \<and> find_first_list
       (JObj [(''requests'', JList [JNum 2]), (''data'', JList [JNum 1]), (''extra'', JNull)])
     = JList [JNum 2]"
  using find_first_list_priority
    [of "[(''requests'', JList [JNum 2]), (''data'', JList [JNum 1]), (''extra'', JNull)]"
        "[(''data'', JList [JNum 1]), (''extra'', JNull), (''requests'', JList [JNum 2])]"
        0 "[JNum 2]"]
  by (simp add: preferred_keys_def insert_commute)

section \<open>Properties of the normalisation\<close>

lemma set_first_seen: "set (first_seen seen ks) = set seen \<union> set ks"
  by (induction seen ks rule: first_seen.induct) auto

lemma distinct_first_seen: "distinct seen \<Longrightarrow> distinct (first_seen seen ks)"
  by (induction seen ks rule: first_seen.induct) auto

text \<open>The columns that flattening emits are the dot-joined leaf paths.\<close>

lemma flatten_paths:
  "fst ` set (flatten path kvs) = (\<lambda>q. dot_join (path @ q)) ` leaf_paths (JObj kvs)"
proof (induction path kvs rule: flatten.induct)
  case (1 path)
  then show ?case by simp
next
  case (2 path k v kvs)
  show ?case
  proof (cases v)
    case (JObj sub)
    with 2 show ?thesis by (auto simp: image_Un image_UN image_image)
  qed (use 2 in \<open>auto simp: image_Un image_UN image_image\<close>)
qed

text \<open>
  C3. For every mapping with no list anywhere in it, \<open>find_first_list\<close> returns \<open>None\<close>,
  and \<open>json_to_dataframe\<close> then returns the normalisation of the whole mapping: a table
  of one row whose columns, each once, are the dot-joined paths to the mapping's leaves.
\<close>

theorem no_list_single_row:
  assumes "no_list (JObj kvs)" and "pd_json_normalize L = json_normalize other"
  shows "find_first_list (JObj kvs) = JNull \<and>
         json_to_dataframe L (JObj kvs) = Inr (table_of_rows [flatten [] kvs]) \<and>
         length (rows (table_of_rows [flatten [] kvs])) = 1 \<and>
         distinct (columns (table_of_rows [flatten [] kvs])) \<and>
         set (columns (table_of_rows [flatten [] kvs])) = dot_join ` leaf_paths (JObj kvs)"
proof -
  have n: "find_first_list (JObj kvs) = JNull"
    using assms(1) by (rule locator_no_list(1))
  have "json_to_dataframe L (JObj kvs) = Inr (table_of_rows [flatten [] kvs])"
    unfolding json_to_dataframe_def using n assms(2) by (simp add: json_normalize_def)
  moreover have "length (rows (table_of_rows [flatten [] kvs])) = 1"
    by (simp add: table_of_rows_def Let_def)
  moreover have "distinct (columns (table_of_rows [flatten [] kvs]))"
    by (simp add: table_of_rows_def Let_def distinct_first_seen)
  moreover have "set (columns (table_of_rows [flatten [] kvs])) = dot_join ` leaf_paths (JObj kvs)"
    using flatten_paths[of "[]" kvs] by (simp add: table_of_rows_def Let_def set_first_seen)
  ultimately show ?thesis using n by simp
qed

theorem no_list_single_row_witness:
  "no_list (JObj [(''status'', JStr ''ok''), (''data'', JObj [(''id'', JStr ''5'')])]) \<and>
   find_first_list (JObj [(''status'', JStr ''ok''), (''data'', JObj [(''id'', JStr ''5'')])]) = JNull \<and>
   json_to_dataframe library0 (JObj [(''status'', JStr ''ok''), (''data'', JObj [(''id'', JStr ''5'')])])
     = Inr \<lparr>columns = [''status'', ''data.id''],
            rows = [[Some (JStr ''ok''), Some (JStr ''5'')]]\<rparr>"
  using no_list_single_row
    [of "[(''status'', JStr ''ok''), (''data'', JObj [(''id'', JStr ''5'')])]" library0 "\<lambda>x. None"]
  by (simp add: library0_def table_of_rows_def)

text \<open>
  C5. \<open>find_first_list\<close> tells an empty list from \<open>None\<close>. On \<open>[]\<close> it returns \<open>[]\<close>. On a
  mapping it returns \<open>[]\<close> when that is the first list it locates: under the earliest
  priority key that holds a list, or, when no priority key holds one, inside the first
  value in insertion order in which a list is found. \<open>json_to_dataframe\<close> on \<open>[]\<close>, and
  on a mapping whose located list is \<open>[]\<close>, gives the table with no row and no column,
  not the one-row table of the single-object fallback.
\<close>

theorem empty_list_not_null:
  assumes "pd_json_normalize L = json_normalize other"
  shows "find_first_list (JList []) = JList [] \<and> JList [] \<noteq> JNull \<and>
    json_to_dataframe L (JList []) = Inr \<lparr>columns = [], rows = []\<rparr> \<and>
    (\<forall>kvs. find_first_list (JObj kvs) = JList [] \<longrightarrow>
       json_to_dataframe L (JObj kvs) = Inr \<lparr>columns = [], rows = []\<rparr>) \<and>
    (\<forall>kvs i. i < length preferred_keys \<and> map_of kvs (preferred_keys ! i) = Some (JList []) \<and>
       (\<forall>j<i. \<not> holds_list kvs (preferred_keys ! j)) \<longrightarrow>
       find_first_list (JObj kvs) = JList []) \<and>
    (\<forall>pre k v rest. preferred_loop (pre @ (k, v) # rest) preferred_keys = None \<and>
       values_loop pre = None \<and> find_first_list v = JList [] \<longrightarrow>
       find_first_list (JObj (pre @ (k, v) # rest)) = JList [])"
proof -
  have e: "pd_json_normalize L (JList []) = Some \<lparr>columns = [], rows = []\<rparr>"
    using assms by (simp add: json_normalize_def table_of_rows_def)
  have a: "json_to_dataframe L (JList []) = Inr \<lparr>columns = [], rows = []\<rparr>"
    unfolding json_to_dataframe_def using e by simp
  have b: "json_to_dataframe L (JObj kvs) = Inr \<lparr>columns = [], rows = []\<rparr>"
    if "find_first_list (JObj kvs) = JList []" for kvs
    unfolding json_to_dataframe_def using e that by simp
  have c: "find_first_list (JObj kvs) = JList []"
    if "i < length preferred_keys" "map_of kvs (preferred_keys ! i) = Some (JList [])"
       "\<forall>j<i. \<not> holds_list kvs (preferred_keys ! j)" for kvs i
  proof -
    have "preferred_loop kvs preferred_keys = Some (JList [])"
      using preferred_loop_index[OF that(1) that(2) _ that(3)] by simp
    then show ?thesis by simp
  qed
  have d: "find_first_list (JObj (pre @ (k, v) # rest)) = JList []"
    if "preferred_loop (pre @ (k, v) # rest) preferred_keys = None" "values_loop pre = None"
       "find_first_list v = JList []" for pre k v rest
    using that by (simp add: values_loop_append Let_def)
  show ?thesis using a b c d by auto
qed

theorem empty_list_not_null_witness:
  "find_first_list (JObj [(''status'', JStr ''ok''), (''requests'', JList [])]) = JList [] \<and>
   find_first_list (JObj [(''page'', JObj [(''items'', JList [])]), (''more'', JList [JNum 1])])
     = JList [] \<and>
   json_to_dataframe library0 (JList []) = Inr \<lparr>columns = [], rows = []\<rparr> \<and>
   json_to_dataframe library0 (JObj [(''status'', JStr ''ok''), (''requests'', JList [])])
     = Inr \<lparr>columns = [], rows = []\<rparr>"
  using empty_list_not_null [of library0 "\<lambda>x. None"]
  by (simp add: library0_def preferred_keys_def json_to_dataframe_def json_normalize_def
      table_of_rows_def)

section \<open>Properties of the column projection\<close>

lemma filter_label: "distinct cols \<Longrightarrow> c \<in> set cols \<Longrightarrow> filter (\<lambda>l. l = c) cols = [c]"
  by (induction cols) (auto simp: filter_empty_conv)

text \<open>Selecting labels that occur in a frame with unique labels yields those labels.\<close>

lemma select_labels:
  "distinct cols \<Longrightarrow> set cs \<subseteq> set cols \<Longrightarrow>
   concat (map (\<lambda>c. filter (\<lambda>l. l = c) cols) cs) = cs"
  by (induction cs) (auto simp: filter_label)

lemma filter_zip_label:
  "distinct cols \<Longrightarrow> length r = length cols \<Longrightarrow> c \<in> set cols \<Longrightarrow>
   \<exists>v. map_of (zip cols r) c = Some v \<and> map snd (filter (\<lambda>p. fst p = c) (zip cols r)) = [v]"
proof (induction cols arbitrary: r)
  case Nil
  then show ?case by simp
next
  case (Cons a cols)
  then obtain x r' where r: "r = x # r'" by (cases r) auto
  show ?case
  proof (cases "a = c")
    case True
    with Cons.prems have "c \<notin> set cols" by auto
    then have "filter (\<lambda>p. fst p = c) (zip cols r') = []"
      by (auto simp: filter_empty_conv dest: set_zip_leftD)
    with True r show ?thesis by simp
  next
    case False
    with Cons r show ?thesis by auto
  qed
qed

lemma select_row_cell:
  assumes "distinct cols" "length r = length cols" "set cs \<subseteq> set cols" "c \<in> set cs"
  shows "map_of (zip cs (select_row cols r cs)) c = map_of (zip cols r) c"
proof -
  have "select_row cols r cs = map (\<lambda>c. the (map_of (zip cols r) c)) cs"
    using assms(3)
  proof (induction cs)
    case Nil
    then show ?case by (simp add: select_row_def)
  next
    case (Cons a cs)
    from filter_zip_label[OF assms(1,2), of a] Cons.prems
    obtain v where "map_of (zip cols r) a = Some v"
      "map snd (filter (\<lambda>p. fst p = a) (zip cols r)) = [v]" by auto
    with Cons show ?case by (simp add: select_row_def)
  qed
  then have "map_of (zip cs (select_row cols r cs)) c = Some (the (map_of (zip cols r) c))"
    using assms(4) by (simp add: map_of_zip_map)
  moreover from filter_zip_label[OF assms(1,2), of c] assms(3,4)
  obtain v where "map_of (zip cols r) c = Some v" by auto
  ultimately show ?thesis by simp
qed

lemma select_columns_values:
  assumes "wf_table T" "set cs \<subseteq> set (columns T)" "c \<in> set cs"
  shows "column_values (select_columns T cs) c = column_values T c"
proof -
  have d: "distinct (columns T)" and l: "\<forall>r\<in>set (rows T). length r = length (columns T)"
    using assms(1) by (auto simp: wf_table_def list_all_iff)
  have "columns (select_columns T cs) = cs"
    using select_labels[OF d assms(2)] by (simp add: select_columns_def)
  then show ?thesis
    using l select_row_cell[OF d _ assms(2,3)]
    by (simp add: column_values_def select_columns_def)
qed

lemma select_columns_not_empty:
  assumes "\<not> df_empty d" "cs \<noteq> []" "set cs \<subseteq> set (columns d)"
  shows "\<not> df_empty (select_columns d cs)"
proof -
  from assms(2) obtain c cs' where cs: "cs = c # cs'" by (cases cs) auto
  with assms(3) have "filter (\<lambda>l. l = c) (columns d) \<noteq> []"
    by (auto simp: filter_empty_conv)
  with cs assms(1) show ?thesis by (simp add: df_empty_def select_columns_def)
qed

lemma pick_preferred_columns_not_empty:
  assumes "\<not> df_empty d"
  shows "\<exists>d'. pick_preferred_columns (Some d) P = Some d' \<and> \<not> df_empty d'"
proof (cases "filter (\<lambda>c. c \<in> set (columns d)) P = []")
  case True
  with assms show ?thesis by (simp add: pick_preferred_columns_def)
next
  case False
  moreover have "\<not> df_empty (select_columns d (filter (\<lambda>c. c \<in> set (columns d)) P))"
    using assms False by (intro select_columns_not_empty) auto
  ultimately show ?thesis using assms by (simp add: pick_preferred_columns_def Let_def)
qed

text \<open>The guard \<open>df.empty\<close>: an empty frame comes back as it is.\<close>

lemma pick_preferred_columns_empty_guard:
  "df_empty T \<Longrightarrow> pick_preferred_columns (Some T) P = Some T"
  by (simp add: pick_preferred_columns_def)

text \<open>
  C1. For every table \<open>T\<close> and every preference list \<open>P\<close>, \<open>pick_preferred_columns\<close>
  returns a table \<open>T'\<close> with no column that is absent from \<open>T\<close>; when columns of \<open>P\<close>
  occur in \<open>T\<close>, the column list of \<open>T'\<close> is those columns, in the order of \<open>P\<close>; when no
  column of \<open>P\<close> occurs in \<open>T\<close>, \<open>T'\<close> is \<open>T\<close> unchanged. The first and the last part
  hold of every frame; the middle part is where \<open>T\<close> has to be a table: unique column
  names, and no columns without rows.
\<close>

theorem pick_preferred_columns_projection:
  "\<exists>T'. pick_preferred_columns (Some T) P = Some T' \<and>
     set (columns T') \<subseteq> set (columns T) \<and>
     (spec_table T \<and> filter (\<lambda>c. c \<in> set (columns T)) P \<noteq> [] \<longrightarrow>
        columns T' = filter (\<lambda>c. c \<in> set (columns T)) P) \<and>
     (filter (\<lambda>c. c \<in> set (columns T)) P = [] \<longrightarrow> T' = T)"
proof -
  let ?present = "filter (\<lambda>c. c \<in> set (columns T)) P"
  have s: "set ?present \<subseteq> set (columns T)" by auto
  have sub: "set (columns (select_columns T ?present)) \<subseteq> set (columns T)"
    by (auto simp: select_columns_def)
  have c: "columns (select_columns T ?present) = ?present" if "distinct (columns T)"
    using select_labels[OF that s] by (simp add: select_columns_def)
  have e: "?present = []" if "spec_table T" "df_empty T"
    using that by (auto simp: spec_table_def df_empty_def)
  show ?thesis
  proof (cases "df_empty T")
    case True
    then have "pick_preferred_columns (Some T) P = Some T"
      by (rule pick_preferred_columns_empty_guard)
    with True e show ?thesis by auto
  next
    case False
    show ?thesis
    proof (cases "?present = []")
      case True
      with False show ?thesis by (simp add: pick_preferred_columns_def)
    next
      case present: False
      with False have "pick_preferred_columns (Some T) P = Some (select_columns T ?present)"
        by (simp add: pick_preferred_columns_def Let_def)
      with present sub c show ?thesis by (auto simp: spec_table_def)
    qed
  qed
qed

theorem pick_preferred_columns_projection_witness:
  "spec_table frame1 \<and>
   pick_preferred_columns (Some frame1) [''subject'', ''nonexistent_col'', ''id'']
     = Some \<lparr>columns = [''subject'', ''id''],
             rows = [[Some (JStr ''X''), Some (JStr ''1'')], [Some JNull, Some (JStr ''2'')]]\<rparr> \<and>
   pick_preferred_columns (Some frame1) [''nonexistent_col''] = Some frame1 \<and>
   spec_table empty_frame \<and>
   pick_preferred_columns (Some empty_frame) [''id''] = Some empty_frame"
  using pick_preferred_columns_projection [of frame1 "[''subject'', ''nonexistent_col'', ''id'']"]
    pick_preferred_columns_projection [of frame1 "[''nonexistent_col'']"]
    pick_preferred_columns_projection [of empty_frame "[''id'']"]
  by (simp add: frame1_def empty_frame_def spec_table_def pick_preferred_columns_def df_empty_def
      select_columns_def select_row_def)

text \<open>
  C8. For every non-empty table \<open>T\<close> (unique labels, one cell per label in every row) and
  every preference list \<open>P\<close>, \<open>pick_preferred_columns\<close> returns a table with as many rows
  as \<open>T\<close>, and every column it retains has, row by row in the same order, the cells it
  has in \<open>T\<close>.
\<close>

theorem pick_preferred_columns_keeps_rows:
  assumes "wf_table T" and "\<not> df_empty T"
  shows "\<exists>T'. pick_preferred_columns (Some T) P = Some T' \<and>
           length (rows T') = length (rows T) \<and>
           (\<forall>c\<in>set (columns T'). column_values T' c = column_values T c)"
proof -
  let ?present = "filter (\<lambda>c. c \<in> set (columns T)) P"
  have d: "distinct (columns T)" using assms(1) by (simp add: wf_table_def)
  show ?thesis
  proof (cases "?present = []")
    case True
    then show ?thesis using assms(2) by (simp add: pick_preferred_columns_def)
  next
    case False
    have s: "set ?present \<subseteq> set (columns T)" by auto
    have c: "columns (select_columns T ?present) = ?present"
      using select_labels[OF d s] by (simp add: select_columns_def)
    have "\<forall>c\<in>set ?present. column_values (select_columns T ?present) c = column_values T c"
      using select_columns_values[OF assms(1) s] by blast
    moreover have "length (rows (select_columns T ?present)) = length (rows T)"
      by (simp add: select_columns_def)
    ultimately show ?thesis
      using False assms(2) c by (simp add: pick_preferred_columns_def Let_def)
  qed
qed

theorem pick_preferred_columns_keeps_rows_witness:
  "wf_table frame1 \<and> \<not> df_empty frame1 \<and>
   column_values
     (the (pick_preferred_columns (Some frame1) [''subject'', ''nonexistent_col'', ''id'']))
     ''subject''
     = [Some (Some (JStr ''X'')), Some (Some JNull)] \<and>
   column_values frame1 ''subject'' = [Some (Some (JStr ''X'')), Some (Some JNull)]"
  using pick_preferred_columns_keeps_rows [of frame1 "[''subject'', ''nonexistent_col'', ''id'']"]
  by (simp add: frame1_def wf_table_def pick_preferred_columns_def df_empty_def
      select_columns_def select_row_def column_values_def)

section \<open>Properties of the HTTP wrappers\<close>

text \<open>
  A transport failure, which requests raises as a \<open>RequestException\<close> from the call
  itself, gives the tuple with no status code and the message of the exception.
\<close>

lemma safe_request_transport_failure:
  assumes "request_exception e"
  shows "requests_post url params data headers verify_ssl 30 = Inl e \<Longrightarrow>
           safe_request_post requests_post url params data headers verify_ssl
             = Inr (None, message e, JNull)"
    and "requests_get url params headers verify_ssl 30 = Inl e \<Longrightarrow>
           safe_request_get requests_get url params headers verify_ssl
             = Inr (None, message e, JNull)"
  using assms by (simp_all add: safe_request_post_def safe_request_get_def except_clauses_def)

text \<open>
  A response whose \<open>r.json()\<close> does not raise a \<open>RequestException\<close> carries its status
  code whenever the wrapper returns.
\<close>

lemma return_response_status:
  assumes "return_response r = Inr (status, body, j)"
    and "case json_body r of Inl e \<Rightarrow> \<not> request_exception e | Inr v \<Rightarrow> True"
  shows "status = Some (status_code r)"
  using assms
  by (auto simp: return_response_def except_clauses_def split: if_splits sum.splits)

text \<open>
  C6 on a response that the server sent: status 500, a JSON content type and a body
  that is not JSON. \<open>r.json()\<close> raises \<open>requests.exceptions.JSONDecodeError\<close>, which is a
  \<open>RequestException\<close> as well as a \<open>ValueError\<close>, so the first \<open>except\<close> clause takes it:
  the wrappers return no status code and the message, as for a transport failure, and
  not the status code and body of the \<open>except ValueError\<close> clause.
\<close>

theorem safe_request_decode_error_status_null:
  "safe_request_post (post_returns html_error_response)
     ''https://host/api/v3/requests'' [] [(''input_data'', ''{}'')] [(''authtoken'', ''t'')] True
     = Inr (None, ''Expecting value: line 1 column 1 (char 0)'', JNull) \<and>
   safe_request_get (get_returns html_error_response)
     ''https://host/api/v3/requests'' [] [(''authtoken'', ''t'')] True
     = Inr (None, ''Expecting value: line 1 column 1 (char 0)'', JNull)"
  by (simp add: safe_request_post_def safe_request_get_def return_response_def
      except_clauses_def html_error_response_def json_decode_error_def
      post_returns_def get_returns_def)

text \<open>
  When \<open>r.json()\<close> raises a \<open>ValueError\<close> that is not a \<open>RequestException\<close>, \<open>r\<close> is bound and
  the \<open>except ValueError\<close> clause returns the status code, the body text and \<open>None\<close>.
\<close>

lemma value_error_after_response:
  assumes "contains ''application/json'' (case content_type r of None \<Rightarrow> [] | Some c \<Rightarrow> c)"
    and "json_body r = Inl e" and "value_error e" and "\<not> request_exception e"
  shows "return_response r = Inr (Some (status_code r), resp_text r, JNull)"
  using assms by (simp add: return_response_def except_clauses_def)

text \<open>
  C10 at a call that itself raises a \<open>ValueError\<close> that is not a \<open>RequestException\<close>. The
  first \<open>except\<close> clause does not take it; the \<open>except ValueError\<close> clause runs with \<open>r\<close>
  unbound, gives \<open>None\<close> for the status and goes on to \<open>str(e)\<close>, where \<open>e\<close> is unbound:
  \<open>UnboundLocalError\<close> leaves the wrappers and no tuple is returned.
\<close>

theorem safe_request_unbound_local_error:
  "safe_request_post (post_raises plain_value_error)
     ''http://host/api'' [] [] [] True = Inl unbound_local_e \<and>
   safe_request_get (get_raises plain_value_error)
     ''http://host/api'' [] [] True = Inl unbound_local_e"
  by (simp add: safe_request_post_def safe_request_get_def except_clauses_def
      plain_value_error_def post_raises_def get_raises_def)

section \<open>Properties of the display\<close>

lemma interactive_table_shown:
  assumes "\<not> df_empty d" "St_dataframe x \<in> set (interactive_table L (Some d) cols title)"
  shows "\<not> df_empty x"
proof (cases "filter (\<lambda>c. c \<in> set (columns d)) cols = []")
  case True
  with assms show ?thesis by (simp add: interactive_table_def Let_def)
next
  case False
  moreover have "\<not> df_empty (select_columns d (filter (\<lambda>c. c \<in> set (columns d)) cols))"
    using assms(1) False by (intro select_columns_not_empty) auto
  ultimately show ?thesis using assms by (simp add: interactive_table_def Let_def)
qed

text \<open>What the view flow can display.\<close>

lemma view_request_flow_cases:
  assumes "view_request_flow L requests_get api_url params headers verify_ssl = Inr evs"
  shows "(\<exists>body. evs = [St_error (''Request error: '' @ body)]) \<or> (\<exists>body. evs = [St_text body]) \<or>
         (\<exists>parsed. evs = [St_json parsed]) \<or>
         (\<exists>df. \<not> df_empty df \<and>
            evs = interactive_table L (pick_preferred_columns (Some df) PREFERRED_VIEW_COLUMNS)
                    PREFERRED_VIEW_COLUMNS ''Requests Export'')"
  using assms unfolding view_request_flow_def
  by (auto simp: Let_def split: sum.splits prod.splits if_splits option.splits)

lemma interactive_table_no_info:
  assumes "\<not> df_empty d"
  shows "St_info m \<notin> set (interactive_table L (Some d) cols title)"
  using assms by (simp add: interactive_table_def Let_def)

text \<open>
  C7, as amended. For every response with a status code whose parsed JSON is truthy and
  whose converted table is empty (no row or no column), the view flow displays the raw
  parsed JSON and nothing else. \<open>interactive_table\<close>, handed \<open>None\<close> or an empty table,
  displays the indicator "No tableable data to display."; the view flow hands it
  neither: it calls \<open>interactive_table\<close> only when the converted table is not empty, and
  then with the non-empty projection of that table. So whatever the view flow displays
  is the request error, the raw body text, the raw JSON, or what \<open>interactive_table\<close>
  displays of a non-empty table; it never displays the indicator and never an empty
  table.
\<close>

theorem view_request_flow_empty_shows_json:
  "(\<forall>status body j parsed df.
      safe_request_get requests_get api_url params headers verify_ssl = Inr (Some status, body, j) \<and>
      parsed = (if j \<noteq> JNull then j
                else (case json_loads L body of Some x \<Rightarrow> x | None \<Rightarrow> JNull)) \<and>
      truthy parsed \<and> json_to_dataframe L parsed = Inr df \<and> df_empty df \<longrightarrow>
      view_request_flow L requests_get api_url params headers verify_ssl = Inr [St_json parsed]) \<and>
   (\<forall>cols title.
      interactive_table L None cols title = [St_info ''No tableable data to display.'']) \<and>
   (\<forall>df cols title. df_empty df \<longrightarrow>
      interactive_table L (Some df) cols title = [St_info ''No tableable data to display.'']) \<and>
   (\<forall>status body j parsed df.
      safe_request_get requests_get api_url params headers verify_ssl = Inr (Some status, body, j) \<and>
      parsed = (if j \<noteq> JNull then j
                else (case json_loads L body of Some x \<Rightarrow> x | None \<Rightarrow> JNull)) \<and>
      truthy parsed \<and> json_to_dataframe L parsed = Inr df \<and> \<not> df_empty df \<longrightarrow>
      (\<exists>d'. pick_preferred_columns (Some df) PREFERRED_VIEW_COLUMNS = Some d' \<and> \<not> df_empty d' \<and>
         view_request_flow L requests_get api_url params headers verify_ssl
           = Inr (interactive_table L (Some d') PREFERRED_VIEW_COLUMNS ''Requests Export''))) \<and>
   (\<forall>evs. view_request_flow L requests_get api_url params headers verify_ssl = Inr evs \<longrightarrow>
      (\<exists>body. evs = [St_error (''Request error: '' @ body)]) \<or>
      (\<exists>body. evs = [St_text body]) \<or>
      (\<exists>parsed. evs = [St_json parsed]) \<or>
      (\<exists>d'. \<not> df_empty d' \<and>
         evs = interactive_table L (Some d') PREFERRED_VIEW_COLUMNS ''Requests Export'')) \<and>
   (\<forall>evs. view_request_flow L requests_get api_url params headers verify_ssl = Inr evs \<longrightarrow>
      St_info ''No tableable data to display.'' \<notin> set evs) \<and>
   (\<forall>evs d. view_request_flow L requests_get api_url params headers verify_ssl = Inr evs \<and>
      St_dataframe d \<in> set evs \<longrightarrow> \<not> df_empty d)"
proof -
  let ?view = "view_request_flow L requests_get api_url params headers verify_ssl"
  have A: "?view = Inr [St_json parsed]"
    if "safe_request_get requests_get api_url params headers verify_ssl = Inr (Some status, body, j)"
      "parsed = (if j \<noteq> JNull then j
                 else (case json_loads L body of Some x \<Rightarrow> x | None \<Rightarrow> JNull))"
      "truthy parsed" "json_to_dataframe L parsed = Inr df" "df_empty df"
    for status body j parsed df
    using that by (auto simp: view_request_flow_def Let_def)
  have B: "interactive_table L None cols title = [St_info ''No tableable data to display.'']"
    for cols title
    by (simp add: interactive_table_def)
  have C: "interactive_table L (Some df) cols title = [St_info ''No tableable data to display.'']"
    if "df_empty df" for df cols title
    using that by (simp add: interactive_table_def)
  have D: "\<exists>d'. pick_preferred_columns (Some df) PREFERRED_VIEW_COLUMNS = Some d' \<and> \<not> df_empty d' \<and>
      ?view = Inr (interactive_table L (Some d') PREFERRED_VIEW_COLUMNS ''Requests Export'')"
    if "safe_request_get requests_get api_url params headers verify_ssl = Inr (Some status, body, j)"
      "parsed = (if j \<noteq> JNull then j
                 else (case json_loads L body of Some x \<Rightarrow> x | None \<Rightarrow> JNull))"
      "truthy parsed" "json_to_dataframe L parsed = Inr df" "\<not> df_empty df"
    for status body j parsed df
  proof -
    from pick_preferred_columns_not_empty[OF that(5), of PREFERRED_VIEW_COLUMNS]
    obtain d' where d': "pick_preferred_columns (Some df) PREFERRED_VIEW_COLUMNS = Some d'"
      "\<not> df_empty d'" by blast
    have "?view = Inr (interactive_table L (pick_preferred_columns (Some df) PREFERRED_VIEW_COLUMNS)
        PREFERRED_VIEW_COLUMNS ''Requests Export'')"
      using that by (auto simp: view_request_flow_def Let_def)
    with d' show ?thesis by simp
  qed
  have E: "(\<exists>body. evs = [St_error (''Request error: '' @ body)]) \<or>
      (\<exists>body. evs = [St_text body]) \<or>
      (\<exists>parsed. evs = [St_json parsed]) \<or>
      (\<exists>d'. \<not> df_empty d' \<and>
         evs = interactive_table L (Some d') PREFERRED_VIEW_COLUMNS ''Requests Export'')"
    if v: "?view = Inr evs" for evs
  proof -
    from view_request_flow_cases[OF v]
    consider (simple) "(\<exists>body. evs = [St_error (''Request error: '' @ body)]) \<or>
        (\<exists>body. evs = [St_text body]) \<or> (\<exists>parsed. evs = [St_json parsed])"
      | (table) df where "\<not> df_empty df"
        "evs = interactive_table L (pick_preferred_columns (Some df) PREFERRED_VIEW_COLUMNS)
                 PREFERRED_VIEW_COLUMNS ''Requests Export''"
      by blast
    then show ?thesis
    proof cases
      case simple
      then show ?thesis by blast
    next
      case table
      from pick_preferred_columns_not_empty[OF table(1), of PREFERRED_VIEW_COLUMNS]
      obtain d' where "pick_preferred_columns (Some df) PREFERRED_VIEW_COLUMNS = Some d'"
        "\<not> df_empty d'" by blast
      with table(2) show ?thesis by auto
    qed
  qed
  have F: "St_info ''No tableable data to display.'' \<notin> set evs" if v: "?view = Inr evs" for evs
    using E[OF v] interactive_table_no_info by auto
  have G: "\<not> df_empty d" if v: "?view = Inr evs" and m: "St_dataframe d \<in> set evs" for evs d
    using E[OF v] m interactive_table_shown by auto
  show ?thesis
    apply (intro conjI allI impI)
    subgoal for status body j parsed df using A by blast
    subgoal for cols title by (rule B)
    subgoal for df cols title by (rule C)
    subgoal for status body j parsed df using D by blast
    subgoal for evs by (rule E)
    subgoal for evs by (rule F)
    subgoal for evs d using G by blast
    done
qed

theorem view_request_flow_empty_shows_json_witness:
  "view_request_flow library0 (get_returns empty_requests_response)
     ''https://host/api/v3/requests'' [] [] True
     = Inr [St_json (JObj [(''requests'', JList [])])] \<and>
   view_request_flow library0 (get_returns one_request_response)
     ''https://host/api/v3/requests'' [] [] True
     = Inr [St_subheader ''Requests Export'',
            St_dataframe \<lparr>columns = [''id''], rows = [[Some (JStr ''1'')]]\<rparr>,
            St_download_button ''Download CSV'' [] ''requests_export.csv'' ''text/csv''] \<and>
   interactive_table library0 None PREFERRED_VIEW_COLUMNS ''Requests Export''
     = [St_info ''No tableable data to display.''] \<and>
   interactive_table library0 (Some \<lparr>columns = [], rows = []\<rparr>) PREFERRED_VIEW_COLUMNS
     ''Requests Export''
     = [St_info ''No tableable data to display.'']"
proof -
  note t = view_request_flow_empty_shows_json
    [of "get_returns empty_requests_response"
        "''https://host/api/v3/requests''" "[]" "[]" True library0]
  have g: "safe_request_get (get_returns empty_requests_response)
      ''https://host/api/v3/requests'' [] [] True
      = Inr (Some 200, ''(body)'', JObj [(''requests'', JList [])])"
    by (simp add: safe_request_get_def return_response_def empty_requests_response_def
        get_returns_def)
  have e: "json_to_dataframe library0 (JObj [(''requests'', JList [])])
      = Inr \<lparr>columns = [], rows = []\<rparr>"
    by (simp add: library0_def json_to_dataframe_def json_normalize_def
        table_of_rows_def preferred_keys_def)
  have 1: "view_request_flow library0 (get_returns empty_requests_response)
      ''https://host/api/v3/requests'' [] [] True = Inr [St_json (JObj [(''requests'', JList [])])]"
    using t[THEN conjunct1, rule_format, of 200 "''(body)''" "JObj [(''requests'', JList [])]"
        "JObj [(''requests'', JList [])]" "\<lparr>columns = [], rows = []\<rparr>"] g e
    by (simp add: df_empty_def)
  have 2: "view_request_flow library0 (get_returns one_request_response)
      ''https://host/api/v3/requests'' [] [] True
      = Inr [St_subheader ''Requests Export'',
             St_dataframe \<lparr>columns = [''id''], rows = [[Some (JStr ''1'')]]\<rparr>,
             St_download_button ''Download CSV'' [] ''requests_export.csv'' ''text/csv'']"
    by (simp add: view_request_flow_def safe_request_get_def return_response_def
      one_request_response_def library0_def json_to_dataframe_def json_normalize_def
      get_returns_def
      table_of_rows_def preferred_keys_def df_empty_def pick_preferred_columns_def
      PREFERRED_VIEW_COLUMNS_def select_columns_def select_row_def interactive_table_def
      file_stem_def lower_char_def)
  have 3: "interactive_table library0 None PREFERRED_VIEW_COLUMNS ''Requests Export''
      = [St_info ''No tableable data to display.'']"
    using t[THEN conjunct2, THEN conjunct1, rule_format] .
  have 4: "interactive_table library0 (Some \<lparr>columns = [], rows = []\<rparr>) PREFERRED_VIEW_COLUMNS
      ''Requests Export'' = [St_info ''No tableable data to display.'']"
    using t[THEN conjunct2, THEN conjunct2, THEN conjunct1, rule_format,
        of "\<lparr>columns = [], rows = []\<rparr>"]
    by (simp add: df_empty_def)
  from 1 2 3 4 show ?thesis by simp
qed

text \<open>
  C7 as stated fails on the answer \<open>{"requests": []}\<close>: its table has no row, and the view
  flow displays the raw JSON, not the indicator.
\<close>

theorem view_request_flow_empty_counterexample:
  "json_to_dataframe library0 (JObj [(''requests'', JList [])]) = Inr \<lparr>columns = [], rows = []\<rparr> \<and>
   view_request_flow library0 (get_returns empty_requests_response)
     ''https://host/api/v3/requests'' [] [] True
     = Inr [St_json (JObj [(''requests'', JList [])])] \<and>
   St_info ''No tableable data to display.'' \<notin> set [St_json (JObj [(''requests'', JList [])])]"
  by (simp add: view_request_flow_def safe_request_get_def return_response_def
      empty_requests_response_def library0_def json_to_dataframe_def json_normalize_def
      table_of_rows_def preferred_keys_def df_empty_def get_returns_def)

end
